theory Spec2Isabelle
  imports Complex_Main "HOL-Library.Word" "HOL-Library.AList"
begin

section \<open>Values accepted by \<open>mo.image\<close>\<close>

text \<open>
  The model follows \<^verbatim>\<open>marimo/_plugins/stateless/image.py\<close>. A Python value that
  can reach \<^verbatim>\<open>_normalize_image\<close> is one of: a list (a nested numeric sequence), an
  arbitrary object described by its type name and the attributes the code probes with
  \<^verbatim>\<open>hasattr\<close>, a PIL image, or one of the five \<^verbatim>\<open>Image\<close> types of line 17.
\<close>

type_synonym byte = "8 word"
type_synonym bytes = "byte list"

text \<open>A binary stream (\<^verbatim>\<open>io.BytesIO\<close>, \<^verbatim>\<open>io.BufferedReader\<close>): its contents and its
  read/write position.\<close>

record stream =
  content :: bytes
  pos :: nat

definition new_BytesIO :: stream where
  "new_BytesIO = \<lparr>content = [], pos = 0\<rparr>"

definition seek :: "nat \<Rightarrow> stream \<Rightarrow> stream" where
  "seek n s = s\<lparr>pos := n\<rparr>"

text \<open>\<^verbatim>\<open>read()\<close> returns everything from the position to the end and leaves the position
  at the end; past the end it returns nothing.\<close>

definition read :: "stream \<Rightarrow> bytes \<times> stream" where
  "read s = (drop (pos s) (content s), s\<lparr>pos := max (pos s) (length (content s))\<rparr>)"

text \<open>\<^verbatim>\<open>write(b)\<close> overwrites from the position on (zero-filling a gap past the end) and
  advances the position by the number of bytes written.\<close>

definition write_stream :: "bytes \<Rightarrow> stream \<Rightarrow> stream" where
  "write_stream b s =
     \<lparr>content = take (pos s) (content s) @ replicate (pos s - length (content s)) 0
                  @ b @ drop (pos s + length b) (content s),
      pos = pos s + length b\<rparr>"

text \<open>A numeric grid: rows of numbers. Finite numbers are rationals (every Python int and
  every finite float is one).\<close>

type_synonym grid = "rat list list"

text \<open>An object that is none of the built-in types below, seen through what the code asks of
  it: its type's name, whether it has the attributes \<^verbatim>\<open>__array__\<close>, \<^verbatim>\<open>toarray\<close> and
  \<^verbatim>\<open>__array_interface__\<close>, and the numbers it holds (what \<^verbatim>\<open>toarray()\<close> and
  \<^verbatim>\<open>numpy.array\<close> make of it). A plain integer is such an object with type name
  \<open>''int''\<close> and no attribute.\<close>

record pyobject =
  type_name :: string
  has_array :: bool
  has_toarray :: bool
  has_array_interface :: bool
  data :: grid

text \<open>A \<^verbatim>\<open>PIL.Image.Image\<close>: its \<^verbatim>\<open>format\<close> attribute (\<^verbatim>\<open>None\<close> for an image not read
  from a file) and its 8-bit pixels.\<close>

record pil_image =
  format :: "string option"
  pixels :: "byte list list"

datatype pyval =
    PyList grid
  | PyObject pyobject
  | PilImage pil_image
  | PyStr string
  | PyBytes bytes
  | PyBytesIO stream
  | PyBufferedReader stream
  | PyPath string

text \<open>The tests of lines 52--54 and 61.\<close>

fun isinstance_list :: "pyval \<Rightarrow> bool" where
  "isinstance_list (PyList g) = True"
| "isinstance_list v = False"

fun hasattr_array :: "pyval \<Rightarrow> bool" where
  "hasattr_array (PyObject ob) = has_array ob"
| "hasattr_array v = False"

fun hasattr_toarray :: "pyval \<Rightarrow> bool" where
  "hasattr_toarray (PyObject ob) = has_toarray ob"
| "hasattr_toarray v = False"

fun hasattr_array_interface :: "pyval \<Rightarrow> bool" where
  "hasattr_array_interface (PyObject ob) = has_array_interface ob"
| "hasattr_array_interface v = False"

definition array_like :: "pyval \<Rightarrow> bool" where
  "array_like src \<longleftrightarrow> isinstance_list src \<or> hasattr_array src \<or> hasattr_toarray src"

text \<open>The test of line 82 and the test of line 89.\<close>

fun isinstance_pil :: "pyval \<Rightarrow> bool" where
  "isinstance_pil (PilImage im) = True"
| "isinstance_pil v = False"

fun isinstance_Image :: "pyval \<Rightarrow> bool" where
  "isinstance_Image (PyStr s) = True"
| "isinstance_Image (PyBytes b) = True"
| "isinstance_Image (PyBytesIO s) = True"
| "isinstance_Image (PyBufferedReader s) = True"
| "isinstance_Image (PyPath p) = True"
| "isinstance_Image v = False"

text \<open>What \<^verbatim>\<open>type(src)\<close> prints as inside an f-string: \<^verbatim>\<open><class 'int'>\<close>.\<close>

fun type_name_of :: "pyval \<Rightarrow> string" where
  "type_name_of (PyList g) = ''list''"
| "type_name_of (PyObject ob) = type_name ob"
| "type_name_of (PilImage im) = ''PIL.Image.Image''"
| "type_name_of (PyStr s) = ''str''"
| "type_name_of (PyBytes b) = ''bytes''"
| "type_name_of (PyBytesIO s) = ''_io.BytesIO''"
| "type_name_of (PyBufferedReader s) = ''_io.BufferedReader''"
| "type_name_of (PyPath p) = ''pathlib.PosixPath''"

definition type_repr :: "pyval \<Rightarrow> string" where
  "type_repr v = ''<class '' @ [CHR 0x27] @ type_name_of v @ [CHR 0x27] @ ''>''"

section \<open>Errors\<close>

text \<open>\<open>MissingDependencyError\<close> is what \<^verbatim>\<open>DependencyManager.<pkg>.require\<close> raises (the
  docstring of \<^verbatim>\<open>_normalize_image\<close> calls it \<^verbatim>\<open>ModuleNotFoundError\<close>); it carries the
  name of the missing package. \<open>ValueError\<close> is raised by line 90 (the specification's
  \<open>UnsupportedTypeError\<close>) and by numpy's reductions on an empty array.
  \<open>FileNotFoundError\<close> is \<^verbatim>\<open>Path.read_bytes\<close> on a path that is no file.\<close>

datatype error =
    MissingDependencyError string
  | ValueError string
  | FileNotFoundError string

section \<open>The numeric step of line 71\<close>

text \<open>
  The result of numpy's true division is a float. Finite values are kept as exact rationals
  (rounding to 53 bits is not modelled); what IEEE 754 returns for a division by zero is:
  \<open>0 / 0\<close> is NaN and \<open>x / 0\<close> is an infinity of the sign of \<open>x\<close>.
\<close>

datatype f64 = Fin rat | PInf | NInf | NaN

definition true_divide :: "rat \<Rightarrow> rat \<Rightarrow> f64" where
  "true_divide a d =
     (if d = 0 then (if a = 0 then NaN else if 0 < a then PInf else NInf)
      else Fin (a / d))"

fun times_255 :: "f64 \<Rightarrow> f64" where
  "times_255 (Fin r) = Fin (r * 255)"
| "times_255 PInf = PInf"
| "times_255 NInf = NInf"
| "times_255 NaN = NaN"

text \<open>\<^verbatim>\<open>src.min()\<close> and \<^verbatim>\<open>src.max()\<close> reduce over all elements and raise \<open>ValueError\<close> on
  an array without elements.\<close>

definition np_min :: "grid \<Rightarrow> error + rat" where
  "np_min g = (if concat g = [] then
       Inl (ValueError ''zero-size array to reduction operation minimum which has no identity'')
     else Inr (Min (set (concat g))))"

definition np_max :: "grid \<Rightarrow> error + rat" where
  "np_max g = (if concat g = [] then
       Inl (ValueError ''zero-size array to reduction operation maximum which has no identity'')
     else Inr (Max (set (concat g))))"

text \<open>Line 71: \<^verbatim>\<open>(src - src.min()) / (src.max() - src.min()) * 255.0\<close>, element by element.
  There is no test of the divisor.\<close>

definition min_max_scale :: "grid \<Rightarrow> error + f64 list list" where
  "min_max_scale g =
     (case np_min g of Inl e \<Rightarrow> Inl e | Inr mn \<Rightarrow>
       (case np_max g of Inl e \<Rightarrow> Inl e | Inr mx \<Rightarrow>
          Inr (map (map (\<lambda>x. times_255 (true_divide (x - mn) (mx - mn)))) g)))"

text \<open>\<^verbatim>\<open>astype("uint8")\<close> truncates towards zero. The conversion of a NaN, of an infinity
  and of a value that does not fit 8 bits is undefined in C: what comes out is the
  platform's choice, the parameter \<open>ub\<close>.\<close>

definition trunc :: "rat \<Rightarrow> int" where
  "trunc r = (if 0 \<le> r then \<lfloor>r\<rfloor> else \<lceil>r\<rceil>)"

fun astype_uint8 :: "(f64 \<Rightarrow> byte) \<Rightarrow> f64 \<Rightarrow> byte" where
  "astype_uint8 ub (Fin r) =
     (if 0 \<le> trunc r \<and> trunc r \<le> 255 then word_of_int (trunc r) else ub (Fin r))"
| "astype_uint8 ub v = ub v"

section \<open>The environment\<close>

text \<open>
  What the function reads from outside: whether Pillow and numpy are installed
  (\<^verbatim>\<open>DependencyManager.<pkg>.has()\<close>, which \<^verbatim>\<open>require\<close> tests), whether Pillow has been
  imported (\<^verbatim>\<open>DependencyManager.pillow.imported()\<close>), the image codec (Pillow's
  \<^verbatim>\<open>save\<close> to a format), the platform's conversion of floats that do not fit a byte,
  the file system with \<^verbatim>\<open>os.path.expanduser\<close>, and \<^verbatim>\<open>io_to_data_url\<close> of
  \<^verbatim>\<open>marimo._plugins.core.media\<close>.
\<close>

record env =
  pillow_has :: bool
  pillow_imported :: bool
  numpy_has :: bool
  encode :: "string \<Rightarrow> byte list list \<Rightarrow> bytes"
  undefined_cast :: "f64 \<Rightarrow> byte"
  files :: "string \<rightharpoonup> bytes"
  expanduser :: "string \<Rightarrow> string"
  io_to_data_url :: "pyval \<Rightarrow> string \<Rightarrow> string option"

text \<open>Modelled from the spec: \<^verbatim>\<open>DependencyManager.<pkg>.require\<close> is not among the sources.
  It "fails with \<open>MissingDependencyError\<close>" naming the missing capability when the package
  is unavailable, and returns otherwise.\<close>

definition require :: "bool \<Rightarrow> string \<Rightarrow> error + unit" where
  "require has pkg = (if has then Inr () else Inl (MissingDependencyError pkg))"

section \<open>\<open>_normalize_image\<close>\<close>

text \<open>\<^verbatim>\<open>numpy.array(src)\<close> of lines 68--70, after \<^verbatim>\<open>toarray()\<close> for a sparse object: the
  numbers of the list, or the numbers the object holds. An object with
  \<^verbatim>\<open>__array_interface__\<close> is used as it is, with the numbers it holds. How numpy finds
  the shape of a nested sequence is not modelled: the rows are those of the array it made,
  and lines 71--72 work element by element, whatever the shape.\<close>

fun numpy_array :: "pyval \<Rightarrow> grid" where
  "numpy_array (PyList g) = g"
| "numpy_array (PyObject ob) = data ob"
| "numpy_array v = []"

text \<open>Lines 71--76: scale, convert to bytes, encode as PNG into a new \<^verbatim>\<open>BytesIO\<close>, which is
  returned as \<^verbatim>\<open>save\<close> leaves it.\<close>

definition array_to_png :: "env \<Rightarrow> grid \<Rightarrow> error + pyval" where
  "array_to_png e g =
     (case min_max_scale g of Inl err \<Rightarrow> Inl err | Inr scaled \<Rightarrow>
        (let img = map (map (astype_uint8 (undefined_cast e))) scaled;
             normalized_src = write_stream (encode e ''PNG'' img) new_BytesIO
         in Inr (PyBytesIO normalized_src)))"

text \<open>Line 84: \<^verbatim>\<open>src.format or "PNG"\<close>.\<close>

definition format_or_PNG :: "pil_image \<Rightarrow> string" where
  "format_or_PNG im = (case format im of None \<Rightarrow> ''PNG'' | Some f \<Rightarrow> if f = [] then ''PNG'' else f)"

fun pil_to_stream :: "env \<Rightarrow> pyval \<Rightarrow> pyval" where
  "pil_to_stream e (PilImage im) =
     PyBytesIO (seek 0 (write_stream (encode e (format_or_PNG im) (pixels im)) new_BytesIO))"
| "pil_to_stream e v = v"

definition normalize_image :: "env \<Rightarrow> pyval \<Rightarrow> error + pyval" where
  "normalize_image e src =
     (if isinstance_list src \<or> hasattr_array src \<or> hasattr_toarray src then
        (case require (pillow_has e) ''PIL'' of Inl err \<Rightarrow> Inl err | Inr u \<Rightarrow>
           (if \<not> hasattr_array_interface src then
              (case require (numpy_has e) ''numpy'' of Inl err \<Rightarrow> Inl err | Inr u \<Rightarrow>
                 array_to_png e (numpy_array src))
            else array_to_png e (numpy_array src)))
      else if pillow_imported e \<and> isinstance_pil src then Inr (pil_to_stream e src)
      else if \<not> isinstance_Image src then
        Inl (ValueError (''Expected an image object, but got '' @ type_repr src @ '' instead.''))
      else Inr src)"

section \<open>The virtual-file store\<close>

text \<open>Modelled from the spec: \<^verbatim>\<open>mo_data.image\<close> (\<^verbatim>\<open>marimo._output.data.data\<close>) is not among
  the sources. The virtual-file store is the "external component that accepts bytes and
  returns a dereferenceable URL", \<^verbatim>\<open>register(bytes, extensionHint?) -> url\<close>, and each
  call may allocate a new entry (no deduplication). The store is the list of the entries
  registered so far, and the URL of an entry is its index.\<close>

text \<open>\<^verbatim>\<open>resolved_src\<close>, the \<open>src\<close> of the element: the URL of an entry of the store, or what
  \<^verbatim>\<open>io_to_data_url\<close> returned (a string or \<^verbatim>\<open>None\<close>).\<close>

datatype url = VirtualFile nat | Direct "string option"

type_synonym store = "(bytes \<times> string option) list"

definition mo_data_image :: "bytes \<Rightarrow> string option \<Rightarrow> store \<Rightarrow> url \<times> store" where
  "mo_data_image b ext st = (VirtualFile (length st), st @ [(b, ext)])"

fun deref :: "store \<Rightarrow> url \<Rightarrow> (bytes \<times> string option) option" where
  "deref st (VirtualFile n) = (if n < length st then Some (st ! n) else None)"
| "deref st (Direct s) = None"

section \<open>Paths\<close>

text \<open>\<^verbatim>\<open>Path.suffix\<close> as pathlib computes it: the part of the final component from its last
  dot on, unless that dot is the first or the last character of the component.\<close>

definition path_name :: "string \<Rightarrow> string" where
  "path_name p = rev (takeWhile (\<lambda>c. c \<noteq> CHR ''/'') (rev p))"

definition rfind :: "char \<Rightarrow> string \<Rightarrow> int" where
  "rfind c s = (if c \<in> set s
     then int (length s) - 1 - int (length (takeWhile (\<lambda>x. x \<noteq> c) (rev s))) else - 1)"

definition path_suffix :: "string \<Rightarrow> string" where
  "path_suffix p =
     (let name = path_name p; i = rfind CHR ''.'' name
      in if 0 < i \<and> i < int (length name) - 1 then drop (nat i) name else [])"

definition isfile :: "env \<Rightarrow> string \<Rightarrow> bool" where
  "isfile e p \<longleftrightarrow> files e p \<noteq> None"

definition read_bytes :: "env \<Rightarrow> string \<Rightarrow> error + bytes" where
  "read_bytes e p = (case files e p of None \<Rightarrow> Inl (FileNotFoundError p) | Some b \<Rightarrow> Inr b)"

section \<open>Styles\<close>

text \<open>A Python \<^verbatim>\<open>dict\<close> from strings to optional strings, in insertion order. Writing a key
  that is present replaces its value in place; a new key goes to the end
  (\<open>AList.update\<close>). The literal of lines 161--166 writes its three computed entries and
  then, for \<^verbatim>\<open>**(style or {})\<close>, each entry of \<^verbatim>\<open>style\<close> in turn.\<close>

type_synonym pydict = "(string \<times> string option) list"

definition dict_unpack :: "pydict \<Rightarrow> pydict \<Rightarrow> pydict" where
  "dict_unpack d items = foldl (\<lambda>acc (k, v). AList.update k v acc) d items"

datatype dimension = DimInt int | DimStr string

fun show_nat :: "nat \<Rightarrow> string" where
  "show_nat n = (if n < 10 then [char_of (48 + n)] else show_nat (n div 10) @ [char_of (48 + n mod 10)])"

definition show_int :: "int \<Rightarrow> string" where
  "show_int i = (if i < 0 then CHR ''-'' # show_nat (nat (- i)) else show_nat (nat i))"

text \<open>Modelled from the spec: \<^verbatim>\<open>normalize_dimension\<close> (\<^verbatim>\<open>marimo._output.utils\<close>) is not
  among the sources. Each of width and height is "normalized to a valid CSS length: plain
  number \<open>\<rightarrow>\<close> \<open>"Npx"\<close>, string passed through"; an absent one stays absent.\<close>

fun normalize_dimension :: "dimension option \<Rightarrow> string option" where
  "normalize_dimension None = None"
| "normalize_dimension (Some (DimInt n)) = Some (show_int n @ ''px'')"
| "normalize_dimension (Some (DimStr s)) = Some s"

text \<open>Modelled from the spec: \<^verbatim>\<open>create_style\<close> (\<^verbatim>\<open>marimo._output.utils\<close>) is not among the
  sources. It builds the "CSS declaration map" of the element: one declaration for each
  entry that has a value, in order; an entry whose value is \<^verbatim>\<open>None\<close> gives none.\<close>

definition create_style :: "pydict \<Rightarrow> (string \<times> string) list" where
  "create_style d = List.map_filter (\<lambda>(k, v). map_option (Pair k) v) d"

text \<open>The dictionary of lines 161--166: the three computed entries of lines 162--164, then
  \<^verbatim>\<open>**(style or {})\<close> of line 165.\<close>

definition computed_style :: "dimension option \<Rightarrow> dimension option \<Rightarrow> bool \<Rightarrow> pydict" where
  "computed_style width height rounded =
     [(''width'', normalize_dimension width),
      (''height'', normalize_dimension height),
      (''border-radius'', if rounded then Some ''4px'' else None)]"

fun or_empty :: "pydict option \<Rightarrow> pydict" where
  "or_empty None = []"
| "or_empty (Some d) = d"

definition style_dict ::
  "dimension option \<Rightarrow> dimension option \<Rightarrow> bool \<Rightarrow> pydict option \<Rightarrow> pydict" where
  "style_dict width height rounded style =
     dict_unpack (computed_style width height rounded) (or_empty style)"

section \<open>\<open>image\<close>\<close>

text \<open>Modelled from the spec: the HTML builder \<^verbatim>\<open>h\<close> and \<^verbatim>\<open>Html\<close> are not among the
  sources. The output is "an \<open><img>\<close> element with \<open>src\<close>, optional \<open>alt\<close>, and computed
  \<open>style\<close>", or a \<open><figure>\<close> holding it and a \<open><figcaption>\<close>.\<close>

datatype html =
    Img url "string option" "(string \<times> string) list"
  | Figcaption "string list" string
  | Figure "html list" string

text \<open>The \<open><img>\<close> element of an output: its source, alternative text and style.\<close>

fun emitted_img :: "html \<Rightarrow> (url \<times> string option \<times> (string \<times> string) list) option" where
  "emitted_img (Img u a sty) = Some (u, a, sty)"
| "emitted_img (Figure (Img u a sty # rest) sty') = Some (u, a, sty)"
| "emitted_img h = None"

text \<open>Lines 145--158: from the normalized value to the URL. \<^verbatim>\<open>mo_data.image\<close> is called
  without an extension for streams and bytes, with the path's suffix for files. A stream
  is read after \<^verbatim>\<open>seek(0)\<close>; that the caller's stream is left at its end is not part of
  the result.\<close>

fun resolve_src :: "env \<Rightarrow> store \<Rightarrow> pyval \<Rightarrow> error + url \<times> store" where
  "resolve_src e st (PyBufferedReader s) = Inr (mo_data_image (fst (read (seek 0 s))) None st)"
| "resolve_src e st (PyBytesIO s) = Inr (mo_data_image (fst (read (seek 0 s))) None st)"
| "resolve_src e st (PyBytes b) = Inr (mo_data_image b None st)"
| "resolve_src e st (PyPath p) =
     (case read_bytes e p of Inl err \<Rightarrow> Inl err
      | Inr b \<Rightarrow> Inr (mo_data_image b (Some (path_suffix p)) st))"
| "resolve_src e st (PyStr s) =
     (if isfile e (expanduser e s) then
        (let expanded_path = expanduser e s in
         case read_bytes e expanded_path of Inl err \<Rightarrow> Inl err
         | Inr b \<Rightarrow> Inr (mo_data_image b (Some (path_suffix expanded_path)) st))
      else Inr (Direct (io_to_data_url e (PyStr s) ''image/png''), st))"
| "resolve_src e st v = Inr (Direct (io_to_data_url e v ''image/png''), st)"

definition mo_image ::
  "env \<Rightarrow> store \<Rightarrow> pyval \<Rightarrow> string option \<Rightarrow> dimension option \<Rightarrow> dimension option \<Rightarrow> bool
     \<Rightarrow> pydict option \<Rightarrow> string option \<Rightarrow> error + html \<times> store" where
  "mo_image e st src alt width height rounded style caption =
     (case normalize_image e src of Inl err \<Rightarrow> Inl err | Inr src' \<Rightarrow>
        (case resolve_src e st src' of Inl err \<Rightarrow> Inl err | Inr (resolved_src, st') \<Rightarrow>
           (let styles = create_style (style_dict width height rounded style);
                img = Img resolved_src alt styles
            in (case caption of
                  None \<Rightarrow> Inr (img, st')
                | Some c \<Rightarrow>
                    Inr (Figure
                           [img,
                            Figcaption [c]
                              ''color: var(--muted-foreground); text-align: center; margin-top: 0.5rem;'']
                           ''display: flex; flex-direction: column;'', st')))))"

section \<open>Notions used to state the properties\<close>





text \<open>The bytes that the \<open>src\<close> of the emitted \<open><img>\<close> refers to in the store.\<close>

definition registered_bytes :: "html \<times> store \<Rightarrow> bytes option" where
  "registered_bytes r =
     (case emitted_img (fst r) of None \<Rightarrow> None
      | Some (u, a, sty) \<Rightarrow> map_option fst (deref (snd r) u))"

section \<open>Example inputs\<close>

text \<open>An environment with both packages, a toy codec that writes the format's name and then
  the pixels row by row, one file, and a home directory.\<close>

definition example_env :: env where
  "example_env =
     \<lparr>pillow_has = True, pillow_imported = True, numpy_has = True,
      encode = (\<lambda>fmt px. map of_char fmt @ concat px),
      undefined_cast = (\<lambda>v. 0),
      files = [''/home/u/cat.png'' \<mapsto> [1, 2, 3]],
      expanduser = (\<lambda>s. case s of [] \<Rightarrow> []
                        | c # rest \<Rightarrow> if c = CHR ''~'' then ''/home/u'' @ rest else s),
      io_to_data_url = (\<lambda>v m. case v of PyStr s \<Rightarrow> Some s | _ \<Rightarrow> None)\<rparr>"

text \<open>The integer \<^verbatim>\<open>5\<close>, as \<^verbatim>\<open>_normalize_image\<close> sees it.\<close>

definition plain_int :: pyobject where
  "plain_int = \<lparr>type_name = ''int'', has_array = False, has_toarray = False,
                 has_array_interface = False, data = []\<rparr>"

text \<open>The same environment without numpy, and an object that has \<^verbatim>\<open>__array__\<close> and
  \<^verbatim>\<open>__array_interface__\<close>.\<close>

definition env_without_numpy :: env where
  "env_without_numpy = example_env\<lparr>numpy_has := False\<rparr>"

definition interface_array :: pyobject where
  "interface_array = \<lparr>type_name = ''Buffer'', has_array = True, has_toarray = False,
                       has_array_interface = True, data = [[0, 1], [2, 4]]\<rparr>"

section \<open>The normalizer's dispatch\<close>

lemma array_to_png_BytesIO: "array_to_png e g = Inr out \<Longrightarrow> \<exists>s. out = PyBytesIO s"
  by (auto simp: array_to_png_def Let_def split: sum.splits)

lemma example_grid_normalized:
  "normalize_image example_env (PyList [[0, 1], [2, 4]]) =
     Inr (PyBytesIO \<lparr>content = [80, 78, 71, 0, 63, 127, 255], pos = 7\<rparr>)"
  by code_simp

text \<open>
  Claim C4. An input that is not a list, has neither \<^verbatim>\<open>__array__\<close> nor \<^verbatim>\<open>toarray\<close>, is not
  a PIL image and is none of \<^verbatim>\<open>str\<close>, \<^verbatim>\<open>bytes\<close>, \<^verbatim>\<open>BytesIO\<close>, \<^verbatim>\<open>BufferedReader\<close>,
  \<^verbatim>\<open>Path\<close> makes \<^verbatim>\<open>_normalize_image\<close> raise the \<open>ValueError\<close> of line 90 (the
  specification's \<open>UnsupportedTypeError\<close>), whose message holds the runtime type of the
  input as \<^verbatim>\<open>type(src)\<close> prints it.
\<close>

theorem unsupported_type_raises:
  assumes "\<not> isinstance_list src" and "\<not> hasattr_array src" and "\<not> hasattr_toarray src"
    and "\<not> (pillow_imported e \<and> isinstance_pil src)" and "\<not> isinstance_Image src"
  shows "normalize_image e src =
     Inl (ValueError (''Expected an image object, but got <class '' @ [CHR 0x27]
            @ type_name_of src @ [CHR 0x27] @ ''> instead.''))"
  using assms by (simp add: normalize_image_def type_repr_def)

theorem unsupported_type_raises_witness:
  "normalize_image example_env (PyObject plain_int) =
     Inl (ValueError (''Expected an image object, but got <class '' @ [CHR 0x27]
            @ ''int'' @ [CHR 0x27] @ ''> instead.''))"
  using unsupported_type_raises [of "PyObject plain_int" example_env]
  by (simp add: plain_int_def)

text \<open>
  Claim C5. Pass-through identity: an input that is already a string, a byte buffer, a byte
  stream, a readable binary or a path is returned unchanged; in particular
  \<open>normalize(b) = b\<close> for every byte buffer \<open>b\<close>. (Such a value is never array-like and
  never a PIL image.)
\<close>

theorem pass_through_identity:
  "(isinstance_Image src \<longrightarrow> normalize_image e src = Inr src)
   \<and> normalize_image e (PyBytes b) = Inr (PyBytes b)"
  by (cases src) (simp_all add: normalize_image_def)

theorem pass_through_identity_witness:
  "normalize_image example_env (PyStr ''https://marimo.io/logo.png'')
     = Inr (PyStr ''https://marimo.io/logo.png'')"
  using pass_through_identity [of "PyStr ''https://marimo.io/logo.png''" example_env]
  by simp

text \<open>
  Claim C6. Whenever \<^verbatim>\<open>_normalize_image\<close> returns, what it returns is one of the
  \<^verbatim>\<open>Image\<close> types (string, bytes, byte stream, readable binary, path) and is not
  array-like: no list and no object with \<^verbatim>\<open>__array__\<close> or \<^verbatim>\<open>toarray\<close> comes out.
\<close>

theorem normalized_is_Image:
  assumes "normalize_image e src = Inr out"
  shows "isinstance_Image out \<and> \<not> array_like out"
proof -
  have "\<exists>s. out = PyBytesIO s"
    if "isinstance_list src \<or> hasattr_array src \<or> hasattr_toarray src"
    using that assms
    by (auto simp: normalize_image_def require_def split: if_splits
        dest: array_to_png_BytesIO)
  moreover have "\<exists>s. out = PyBytesIO s"
    if "\<not> (isinstance_list src \<or> hasattr_array src \<or> hasattr_toarray src)"
      and "pillow_imported e \<and> isinstance_pil src"
    using that assms by (cases src) (auto simp: normalize_image_def)
  moreover have "out = src \<and> isinstance_Image src"
    if "\<not> (isinstance_list src \<or> hasattr_array src \<or> hasattr_toarray src)"
      and "\<not> (pillow_imported e \<and> isinstance_pil src)"
    using that assms by (auto simp: normalize_image_def split: if_splits)
  ultimately show ?thesis
    by (cases "isinstance_list src \<or> hasattr_array src \<or> hasattr_toarray src";
        cases "pillow_imported e \<and> isinstance_pil src")
       (auto simp: array_like_def)
qed

theorem normalized_is_Image_witness:
  "isinstance_Image (PyBytesIO \<lparr>content = [80, 78, 71, 0, 63, 127, 255], pos = 7\<rparr>)
   \<and> \<not> array_like (PyBytesIO \<lparr>content = [80, 78, 71, 0, 63, 127, 255], pos = 7\<rparr>)"
  using normalized_is_Image [OF example_grid_normalized] by simp

section \<open>Min-max normalization of arrays\<close>
















section \<open>Required packages\<close>

lemma array_to_png_error: "array_to_png e g = Inl err \<Longrightarrow> \<exists>m. err = ValueError m"
  by (auto simp: array_to_png_def min_max_scale_def np_min_def np_max_def Let_def
      split: sum.splits if_splits)

text \<open>
  Claim C3, as the code has it. For every array-like input, \<^verbatim>\<open>_normalize_image\<close> fails with
  \<open>MissingDependencyError\<close> when Pillow is unavailable, and when Pillow is available, numpy
  is not and the input has no \<^verbatim>\<open>__array_interface__\<close> attribute. For an input that has
  the attribute, line 61 skips the numpy requirement: with Pillow available the function
  goes on to lines 71--76 and never fails with \<open>MissingDependencyError\<close>, whether numpy is
  available or not.
\<close>

theorem missing_dependency:
  assumes "array_like src"
  shows "(\<not> pillow_has e \<longrightarrow> normalize_image e src = Inl (MissingDependencyError ''PIL''))
     \<and> (pillow_has e \<and> \<not> numpy_has e \<and> \<not> hasattr_array_interface src \<longrightarrow>
          normalize_image e src = Inl (MissingDependencyError ''numpy''))
     \<and> (pillow_has e \<and> hasattr_array_interface src \<longrightarrow>
          normalize_image e src = array_to_png e (numpy_array src)
          \<and> (\<forall>pkg. normalize_image e src \<noteq> Inl (MissingDependencyError pkg)))"
proof -
  have c: "isinstance_list src \<or> hasattr_array src \<or> hasattr_toarray src"
    using assms by (simp add: array_like_def)
  have "array_to_png e (numpy_array src) \<noteq> Inl (MissingDependencyError pkg)" for pkg
    using array_to_png_error [of e "numpy_array src" "MissingDependencyError pkg"] by auto
  then show ?thesis using c by (simp add: normalize_image_def require_def)
qed

theorem missing_dependency_witness:
  "normalize_image env_without_numpy (PyList [[0, 1], [2, 4]])
     = Inl (MissingDependencyError ''numpy'')"
proof -
  have "array_like (PyList [[0, 1], [2, 4]])" by (simp add: array_like_def)
  then show ?thesis
    using missing_dependency [of "PyList [[0, 1], [2, 4]]" env_without_numpy]
    by (simp add: env_without_numpy_def example_env_def)
qed

text \<open>
  The claim as stated, "fails with \<open>MissingDependencyError\<close> whenever ... numpy is
  unavailable", does not hold: without numpy, an object with \<^verbatim>\<open>__array__\<close> and
  \<^verbatim>\<open>__array_interface__\<close> is normalized to a PNG stream.
\<close>

theorem numpy_not_always_required:
  "array_like (PyObject interface_array) \<and> \<not> numpy_has env_without_numpy
   \<and> normalize_image env_without_numpy (PyObject interface_array)
       = Inr (PyBytesIO \<lparr>content = [80, 78, 71, 0, 63, 127, 255], pos = 7\<rparr>)"
  by code_simp

section \<open>The style dictionary\<close>

lemma dict_unpack_Cons:
  "dict_unpack d ((k, v) # items) = dict_unpack (AList.update k v d) items"
  by (simp add: dict_unpack_def)

lemma dict_unpack_map_of: "map_of (dict_unpack d items) = map_of d ++ map_of (rev items)"
proof (induction items arbitrary: d)
  case Nil
  then show ?case by (simp add: dict_unpack_def)
next
  case (Cons kv items)
  obtain k v where kv: "kv = (k, v)" by (cases kv)
  have "map_of (dict_unpack d (kv # items)) = map_of (AList.update k v d) ++ map_of (rev items)"
    unfolding kv dict_unpack_Cons by (rule Cons.IH)
  also have "map_of (AList.update k v d) = (map_of d)(k \<mapsto> v)"
    by (rule update_conv')
  also have "(map_of d)(k \<mapsto> v) ++ map_of (rev items) = map_of d ++ map_of (rev (kv # items))"
    by (rule ext) (simp add: kv map_add_def split: option.splits)
  finally show ?case .
qed

lemma dict_unpack_distinct:
  "distinct (map fst d) \<Longrightarrow> distinct (map fst (dict_unpack d items))"
proof (induction items arbitrary: d)
  case Nil
  then show ?case by (simp add: dict_unpack_def)
next
  case (Cons kv items)
  obtain k v where kv: "kv = (k, v)" by (cases kv)
  have "distinct (map fst (AList.update k v d))"
    using Cons.prems by (simp add: distinct_update)
  then show ?case unfolding kv dict_unpack_Cons by (rule Cons.IH)
qed

lemma create_style_Nil: "create_style [] = []"
  by (simp add: create_style_def)

lemma create_style_None: "create_style ((k, None) # d) = create_style d"
  by (simp add: create_style_def)

lemma create_style_Some: "create_style ((k, Some s) # d) = (k, s) # create_style d"
  by (simp add: create_style_def)

lemma create_style_keys: "fst ` set (create_style d) \<subseteq> fst ` set d"
proof (induction d)
  case Nil
  then show ?case by (simp add: create_style_Nil)
next
  case (Cons kv d)
  obtain k v where kv: "kv = (k, v)" by (cases kv)
  show ?case unfolding kv using Cons
    by (cases v) (auto simp: create_style_None create_style_Some)
qed

lemma create_style_distinct:
  "distinct (map fst d) \<Longrightarrow> distinct (map fst (create_style d))"
proof (induction d)
  case Nil
  then show ?case by (simp add: create_style_Nil)
next
  case (Cons kv d)
  obtain k v where kv: "kv = (k, v)" by (cases kv)
  have k: "k \<notin> fst ` set (create_style d)"
    using Cons.prems create_style_keys [of d] by (auto simp: kv)
  have IH: "distinct (map fst (create_style d))" using Cons by simp
  show ?case unfolding kv using IH k
    by (cases v) (simp_all add: create_style_None create_style_Some)
qed

lemma create_style_map_of:
  "distinct (map fst d) \<Longrightarrow>
     map_of (create_style d) k = (case map_of d k of None \<Rightarrow> None | Some v \<Rightarrow> v)"
proof (induction d)
  case Nil
  then show ?case by (simp add: create_style_Nil)
next
  case (Cons kv d)
  obtain k' v where kv: "kv = (k', v)" by (cases kv)
  have notin: "k' \<notin> fst ` set (create_style d)"
    using Cons.prems create_style_keys [of d] by (auto simp: kv)
  then have none: "map_of (create_style d) k' = None" by (simp add: map_of_eq_None_iff)
  have IH: "map_of (create_style d) k = (case map_of d k of None \<Rightarrow> None | Some v \<Rightarrow> v)"
    using Cons by simp
  have none': "map_of d k' = None"
    using Cons.prems by (simp add: kv map_of_eq_None_iff)
  show ?case unfolding kv using IH none none'
    by (cases v) (simp_all add: create_style_None create_style_Some)
qed

lemma computed_style_distinct: "distinct (map fst (computed_style w h r))"
  by (simp add: computed_style_def)

lemma style_dict_distinct: "distinct (map fst (style_dict w h r sty))"
  unfolding style_dict_def by (rule dict_unpack_distinct) (rule computed_style_distinct)

lemma mo_image_emitted:
  assumes "mo_image e st src alt w h r sty cap = Inr (out, st')"
  shows "\<exists>u. emitted_img out = Some (u, alt, create_style (style_dict w h r sty))"
  using assms
  by (auto simp: mo_image_def Let_def split: sum.splits option.splits prod.splits)

lemma create_style_mem:
  assumes "distinct (map fst d)"
  shows "(k, v) \<in> set (create_style d) \<longleftrightarrow> map_of d k = Some (Some v)"
proof -
  have "(k, v) \<in> set (create_style d) \<longleftrightarrow> map_of (create_style d) k = Some v"
    using create_style_distinct [OF assms] by simp
  also have "\<dots> \<longleftrightarrow> map_of d k = Some (Some v)"
    unfolding create_style_map_of [OF assms] by (simp split: option.splits)
  finally show ?thesis .
qed

lemma style_dict_lookup:
  "map_of (style_dict w h r sty) k =
     (case map_of (rev (or_empty sty)) k of
        Some v \<Rightarrow> Some v
      | None \<Rightarrow> map_of (computed_style w h r) k)"
  unfolding style_dict_def dict_unpack_map_of by (simp add: map_add_def)

text \<open>
  Claim C8, as the code has it. Whenever \<^verbatim>\<open>image\<close> returns and the caller's \<^verbatim>\<open>style\<close> has
  no \<open>border-radius\<close> key: the style of the emitted \<open><img>\<close> includes
  \<open>border-radius: 4px\<close> exactly when \<^verbatim>\<open>rounded\<close> is true, and with \<^verbatim>\<open>rounded\<close> false it
  has no \<open>border-radius\<close> declaration at all.
\<close>

theorem rounded_border_radius:
  assumes "mo_image e st src alt width height rounded style caption = Inr (out, st')"
    and "''border-radius'' \<notin> fst ` set (or_empty style)"
  shows "\<exists>u sty. emitted_img out = Some (u, alt, sty)
           \<and> ((''border-radius'', ''4px'') \<in> set sty \<longleftrightarrow> rounded)
           \<and> (\<not> rounded \<longrightarrow> ''border-radius'' \<notin> fst ` set sty)"
proof -
  let ?d = "style_dict width height rounded style"
  obtain u where u: "emitted_img out = Some (u, alt, create_style ?d)"
    using mo_image_emitted [OF assms(1)] by blast
  have "map_of (rev (or_empty style)) ''border-radius'' = None"
    using assms(2) by (simp add: map_of_eq_None_iff)
  then have look: "map_of ?d ''border-radius'' = Some (if rounded then Some ''4px'' else None)"
    unfolding style_dict_lookup by (simp add: computed_style_def)
  have mem: "(''border-radius'', v) \<in> set (create_style ?d)
              \<longleftrightarrow> (if rounded then Some ''4px'' else None) = Some v" for v
    unfolding create_style_mem [OF style_dict_distinct] look by simp
  have "(''border-radius'', ''4px'') \<in> set (create_style ?d) \<longleftrightarrow> rounded"
    unfolding mem by simp
  moreover have "''border-radius'' \<notin> fst ` set (create_style ?d)" if "\<not> rounded"
    using that mem by (auto simp: image_iff)
  ultimately show ?thesis using u by blast
qed

theorem rounded_border_radius_witness:
  "emitted_img (Img (Direct (Some ''https://marimo.io/logo.png'')) None
                  [(''width'', ''100px''), (''border-radius'', ''4px'')])
     = Some (Direct (Some ''https://marimo.io/logo.png''), None,
             [(''width'', ''100px''), (''border-radius'', ''4px'')])
   \<and> (''border-radius'', ''4px'') \<in> set [(''width'', ''100px''), (''border-radius'', ''4px'')]"
proof -
  have run: "mo_image example_env [] (PyStr ''https://marimo.io/logo.png'') None
               (Some (DimInt 100)) None True None None
             = Inr (Img (Direct (Some ''https://marimo.io/logo.png'')) None
                      [(''width'', ''100px''), (''border-radius'', ''4px'')], [])"
    by code_simp
  show ?thesis using rounded_border_radius [OF run] by simp
qed

text \<open>
  The claim as stated, for every options map, does not hold: line 165 unpacks the caller's
  \<^verbatim>\<open>style\<close> after the computed entries, so with \<^verbatim>\<open>rounded=True\<close> and
  \<^verbatim>\<open>style={"border-radius": "10px"}\<close> the style has \<open>border-radius: 10px\<close> and not
  \<open>4px\<close>, and with \<^verbatim>\<open>rounded=False\<close> and \<^verbatim>\<open>style={"border-radius": "4px"}\<close> it has
  \<open>border-radius: 4px\<close>.
\<close>

theorem border_radius_overridden:
  "mo_image example_env [] (PyBytes [1]) None None None True
       (Some [(''border-radius'', Some ''10px'')]) None
     = Inr (Img (VirtualFile 0) None [(''border-radius'', ''10px'')], [([1], None)])
   \<and> (''border-radius'', ''4px'') \<notin> set [(''border-radius'', ''10px'')]
   \<and> mo_image example_env [] (PyBytes [1]) None None None False
       (Some [(''border-radius'', Some ''4px'')]) None
     = Inr (Img (VirtualFile 0) None [(''border-radius'', ''4px'')], [([1], None)])"
  by code_simp

text \<open>
  Claim C9. The style of the emitted \<open><img>\<close> is made from the dictionary that holds the
  normalized width, the normalized height and the conditional \<open>border-radius\<close> entry,
  updated with the caller's \<^verbatim>\<open>style\<close>. For every key the caller's \<^verbatim>\<open>style\<close> has, the
  dictionary holds the caller's value, and the declaration is that value (none if the
  value is \<^verbatim>\<open>None\<close>); for every other key it holds the computed value.
\<close>

theorem style_overrides_win:
  assumes "mo_image e st src alt width height rounded style caption = Inr (out, st')"
    and "distinct (map fst (or_empty style))"
  shows "\<exists>u. emitted_img out = Some (u, alt, create_style (style_dict width height rounded style))
     \<and> style_dict width height rounded style
         = dict_unpack [(''width'', normalize_dimension width),
                        (''height'', normalize_dimension height),
                        (''border-radius'', if rounded then Some ''4px'' else None)]
             (or_empty style)
     \<and> (\<forall>k. map_of (style_dict width height rounded style) k =
            (case map_of (or_empty style) k of
               Some v \<Rightarrow> Some v
             | None \<Rightarrow> map_of (computed_style width height rounded) k))
     \<and> (\<forall>k. map_of (create_style (style_dict width height rounded style)) k =
            (case map_of (or_empty style) k of
               Some v \<Rightarrow> v
             | None \<Rightarrow> (case map_of (computed_style width height rounded) k of
                          Some v \<Rightarrow> v | None \<Rightarrow> None)))"
proof -
  have rv: "map_of (rev (or_empty style)) = map_of (or_empty style)"
    using assms(2) by (simp add: map_of_inject_set rev_map [symmetric])
  have look: "map_of (style_dict width height rounded style) k =
          (case map_of (or_empty style) k of
             Some v \<Rightarrow> Some v
           | None \<Rightarrow> map_of (computed_style width height rounded) k)" for k
    unfolding style_dict_lookup rv by simp
  have "map_of (create_style (style_dict width height rounded style)) k =
          (case map_of (or_empty style) k of
             Some v \<Rightarrow> v
           | None \<Rightarrow> (case map_of (computed_style width height rounded) k of
                        Some v \<Rightarrow> v | None \<Rightarrow> None))" for k
    unfolding create_style_map_of [OF style_dict_distinct] look
    by (simp split: option.splits)
  moreover have "style_dict width height rounded style
         = dict_unpack [(''width'', normalize_dimension width),
                        (''height'', normalize_dimension height),
                        (''border-radius'', if rounded then Some ''4px'' else None)]
             (or_empty style)"
    by (simp add: style_dict_def computed_style_def)
  ultimately show ?thesis using mo_image_emitted [OF assms(1)] look by blast
qed

theorem style_overrides_win_witness:
  "map_of [(''width'', ''50%''), (''border-radius'', ''4px''), (''color'', ''red'')] ''width''
     = Some ''50%''
   \<and> mo_image example_env [] (PyBytes [1]) None (Some (DimInt 100)) None True
         (Some [(''width'', Some ''50%''), (''color'', Some ''red'')]) None
       = Inr (Img (VirtualFile 0) None
                [(''width'', ''50%''), (''border-radius'', ''4px''), (''color'', ''red'')],
              [([1], None)])"
proof -
  have d: "distinct (map fst (or_empty (Some [(''width'', Some ''50%''), (''color'', Some ''red'')])))"
    by simp
  have run: "mo_image example_env [] (PyBytes [1]) None (Some (DimInt 100)) None True
         (Some [(''width'', Some ''50%''), (''color'', Some ''red'')]) None
       = Inr (Img (VirtualFile 0) None
                [(''width'', ''50%''), (''border-radius'', ''4px''), (''color'', ''red'')],
              [([1], None)])"
    by code_simp
  have sd: "create_style (style_dict (Some (DimInt 100)) None True
               (Some [(''width'', Some ''50%''), (''color'', Some ''red'')]))
            = [(''width'', ''50%''), (''border-radius'', ''4px''), (''color'', ''red'')]"
    by code_simp
  have "map_of (create_style (style_dict (Some (DimInt 100)) None True
               (Some [(''width'', Some ''50%''), (''color'', Some ''red'')]))) ''width''
        = (case map_of (or_empty (Some [(''width'', Some ''50%''), (''color'', Some ''red'')])) ''width'' of
               Some v \<Rightarrow> v
             | None \<Rightarrow> (case map_of (computed_style (Some (DimInt 100)) None True) ''width'' of
                          Some v \<Rightarrow> v | None \<Rightarrow> None))"
    using style_overrides_win [OF run d] by blast
  then have "map_of [(''width'', ''50%''), (''border-radius'', ''4px''), (''color'', ''red'')] ''width''
        = Some ''50%''"
    unfolding sd by simp
  then show ?thesis using run by (simp only: simp_thms)
qed

section \<open>Resolving the source\<close>

text \<open>
  Claim C7. For a path \<open>p\<close> of an existing file, given as a \<^verbatim>\<open>Path\<close> object or as a string
  that \<^verbatim>\<open>os.path.expanduser\<close> turns into the path of an existing file, \<^verbatim>\<open>image(p)\<close> with
  no option reads the file's bytes, registers them with the virtual-file store with the
  path's suffix as extension, and returns a bare \<open><img>\<close> whose \<open>src\<close> is the URL of the new
  entry: the bytes it refers to are the file's.
\<close>

theorem local_file_rendering:
  "(files e p = Some b \<longrightarrow>
      mo_image e st (PyPath p) None None None False None None
        = Inr (Img (VirtualFile (length st)) None [], st @ [(b, Some (path_suffix p))])
      \<and> registered_bytes (Img (VirtualFile (length st)) None [], st @ [(b, Some (path_suffix p))])
        = Some b)
   \<and> (files e (expanduser e s) = Some b \<longrightarrow>
      mo_image e st (PyStr s) None None None False None None
        = Inr (Img (VirtualFile (length st)) None [],
               st @ [(b, Some (path_suffix (expanduser e s)))])
      \<and> registered_bytes (Img (VirtualFile (length st)) None [],
               st @ [(b, Some (path_suffix (expanduser e s)))])
        = Some b)"
proof -
  have sty: "create_style (style_dict None None False None) = []"
    by (simp add: style_dict_def dict_unpack_def computed_style_def create_style_def)
  have reg: "registered_bytes (Img (VirtualFile (length st)) None [], st @ [(b, x)]) = Some b" for x
    by (simp add: registered_bytes_def)
  have "mo_image e st (PyPath p) None None None False None None
        = Inr (Img (VirtualFile (length st)) None [], st @ [(b, Some (path_suffix p))])"
    if "files e p = Some b"
    using that sty
    by (simp add: mo_image_def normalize_image_def read_bytes_def mo_data_image_def)
  moreover have "mo_image e st (PyStr s) None None None False None None
        = Inr (Img (VirtualFile (length st)) None [],
               st @ [(b, Some (path_suffix (expanduser e s)))])"
    if "files e (expanduser e s) = Some b"
    using that sty
    by (simp add: mo_image_def normalize_image_def read_bytes_def mo_data_image_def
         isfile_def Let_def)
  ultimately show ?thesis using reg by blast
qed

theorem local_file_rendering_witness:
  "mo_image example_env [] (PyStr ''~/cat.png'') None None None False None None
     = Inr (Img (VirtualFile 0) None [], [([1, 2, 3], Some ''.png'')])
   \<and> mo_image example_env [] (PyPath ''/home/u/cat.png'') None None None False None None
     = Inr (Img (VirtualFile 0) None [], [([1, 2, 3], Some ''.png'')])
   \<and> registered_bytes (Img (VirtualFile 0) None [], [([1, 2, 3], Some ''.png'')])
     = Some [1, 2, 3]"
proof -
  have f: "files example_env ''/home/u/cat.png'' = Some [1, 2, 3]"
    by (simp add: example_env_def)
  have x: "expanduser example_env ''~/cat.png'' = ''/home/u/cat.png''"
    by (simp add: example_env_def)
  have sfx: "path_suffix ''/home/u/cat.png'' = ''.png''" by code_simp
  show ?thesis
    using local_file_rendering [of example_env "''/home/u/cat.png''" "[1, 2, 3]" "[]" "''~/cat.png''"]
      f x sfx by simp
qed

text \<open>
  Claim C10. For a \<^verbatim>\<open>BytesIO\<close> or a \<^verbatim>\<open>BufferedReader\<close>, whatever its position on entry,
  \<^verbatim>\<open>image\<close> seeks to 0 before it reads: the bytes registered with the store are the whole
  contents of the stream. The stream that lines 74--76 return for an array-like input is
  left at its end, and \<^verbatim>\<open>image\<close> still registers all of it.
\<close>

theorem stream_rewound_before_read:
  "(\<exists>out. mo_image e st (PyBytesIO s) alt width height rounded style caption
             = Inr (out, st @ [(content s, None)])
          \<and> registered_bytes (out, st @ [(content s, None)]) = Some (content s))
   \<and> (\<exists>out. mo_image e st (PyBufferedReader s) alt width height rounded style caption
             = Inr (out, st @ [(content s, None)])
          \<and> registered_bytes (out, st @ [(content s, None)]) = Some (content s))
   \<and> (array_like src \<and> normalize_image e src = Inr v \<longrightarrow>
        (\<exists>s'. v = PyBytesIO s' \<and> pos s' = length (content s')
           \<and> (\<exists>out. mo_image e st src alt width height rounded style caption
                       = Inr (out, st @ [(content s', None)])
                  \<and> registered_bytes (out, st @ [(content s', None)]) = Some (content s'))))"
proof (intro conjI impI)
  have rd: "fst (read (seek 0 t)) = content t" for t
    by (simp add: read_def seek_def)
  have res: "resolve_src e st (PyBytesIO t) = Inr (VirtualFile (length st), st @ [(content t, None)])"
    "resolve_src e st (PyBufferedReader t) = Inr (VirtualFile (length st), st @ [(content t, None)])" for t
    by (simp_all add: rd mo_data_image_def)
  have fin: "\<exists>out. mo_image e st x alt width height rounded style caption
             = Inr (out, st @ [(content t, None)])
          \<and> registered_bytes (out, st @ [(content t, None)]) = Some (content t)"
    if "normalize_image e x = Inr y" "resolve_src e st y = Inr (VirtualFile (length st), st @ [(content t, None)])"
    for x y t
    using that by (cases caption) (simp_all add: mo_image_def Let_def registered_bytes_def)
  show "\<exists>out. mo_image e st (PyBytesIO s) alt width height rounded style caption
             = Inr (out, st @ [(content s, None)])
          \<and> registered_bytes (out, st @ [(content s, None)]) = Some (content s)"
    by (rule fin [OF _ res(1)]) (simp add: normalize_image_def)
  show "\<exists>out. mo_image e st (PyBufferedReader s) alt width height rounded style caption
             = Inr (out, st @ [(content s, None)])
          \<and> registered_bytes (out, st @ [(content s, None)]) = Some (content s)"
    by (rule fin [OF _ res(2)]) (simp add: normalize_image_def)
  assume a: "array_like src \<and> normalize_image e src = Inr v"
  then have "array_to_png e (numpy_array src) = Inr v"
    by (auto simp: normalize_image_def array_like_def require_def split: if_splits)
  then obtain s' where s': "v = PyBytesIO s'" "pos s' = length (content s')"
    by (auto simp: array_to_png_def Let_def write_stream_def new_BytesIO_def split: sum.splits)
  have "\<exists>out. mo_image e st src alt width height rounded style caption
             = Inr (out, st @ [(content s', None)])
          \<and> registered_bytes (out, st @ [(content s', None)]) = Some (content s')"
    using a s'(1) by (intro fin [OF _ res(1)]) simp
  then show "\<exists>s'. v = PyBytesIO s' \<and> pos s' = length (content s')
           \<and> (\<exists>out. mo_image e st src alt width height rounded style caption
                       = Inr (out, st @ [(content s', None)])
                  \<and> registered_bytes (out, st @ [(content s', None)]) = Some (content s'))"
    using s' by blast
qed

theorem stream_rewound_before_read_witness:
  "normalize_image example_env (PyList [[0, 1], [2, 4]])
     = Inr (PyBytesIO \<lparr>content = [80, 78, 71, 0, 63, 127, 255], pos = 7\<rparr>)
   \<and> (\<exists>out. mo_image example_env [] (PyList [[0, 1], [2, 4]]) None None None False None None
              = Inr (out, [([80, 78, 71, 0, 63, 127, 255], None)]))"
proof -
  have "array_like (PyList [[0, 1], [2, 4]])" by (simp add: array_like_def)
  then show ?thesis
    using stream_rewound_before_read [of example_env "[]" "\<lparr>content = [], pos = 0\<rparr>" None None
        None False None None "PyList [[0, 1], [2, 4]]"
        "PyBytesIO \<lparr>content = [80, 78, 71, 0, 63, 127, 255], pos = 7\<rparr>"]
      example_grid_normalized
    by auto
qed

end
